theory Spec2Isabelle
  imports Main
begin

section \<open>Shared data: errors, panics, contexts, structured fields\<close>

text \<open>
  A Go \<^verbatim>\<open>error\<close> value is modelled by what the code reads from it: its message, for
  errors of the transport's status-carrying kind the status code and the status
  message, and for an error that wraps another one (\<^verbatim>\<open>Unwrap\<close>) its own message and
  the error it wraps. \<^verbatim>\<open>nil\<close> is \<open>None\<close> of \<open>error option\<close>.
\<close>

datatype error = GoError string | StatusError string string | WrappedError string error

fun Error_msg :: "error \<Rightarrow> string" where
  "Error_msg (GoError m) = m"
| "Error_msg (StatusError c m) = ''rpc error: code = '' @ c @ '' desc = '' @ m"
| "Error_msg (WrappedError m e) = m"

text \<open>\<^verbatim>\<open>errors.Wrap(err, msg)\<close> of github.com/pkg/errors: the message is prefixed.\<close>

definition Wrap :: "error \<Rightarrow> string \<Rightarrow> error" where
  "Wrap err msg = GoError (msg @ '': '' @ Error_msg err)"

text \<open>
  \<^verbatim>\<open>status.FromError\<close> of the transport library, on a non-nil error. A status-carrying
  error gives its own status. An error that wraps a status-carrying error, however
  deep (\<^verbatim>\<open>errors.As\<close> follows the chain), gives the code of that status with the message
  of the outer error. Every other error gives code Unknown with its message.
\<close>

fun wrapped_status_code :: "error \<Rightarrow> string option" where
  "wrapped_status_code (GoError m) = None"
| "wrapped_status_code (StatusError c m) = Some c"
| "wrapped_status_code (WrappedError m e) = wrapped_status_code e"

fun status_FromError :: "error \<Rightarrow> (string \<times> string) option" where
  "status_FromError (StatusError c m) = Some (c, m)"
| "status_FromError (GoError m) = Some (''Unknown'', m)"
| "status_FromError (WrappedError m e) =
     (case wrapped_status_code e of
        Some c \<Rightarrow> Some (c, m)
      | None \<Rightarrow> Some (''Unknown'', m))"

text \<open>
  The value a panic carries is an \<^verbatim>\<open>interface{}\<close>: the code asks whether it is nil and
  whether it is an \<^verbatim>\<open>error\<close>. \<open>PanicNil\<close> is the panic that \<^verbatim>\<open>panic(nil)\<close> raises
  with the meaning it had before Go 1.21 (a go directive below 1.21, or
  \<^verbatim>\<open>GODEBUG=panicnil=1\<close>); from Go 1.21 on, \<^verbatim>\<open>panic(nil)\<close> raises a
  \<^verbatim>\<open>*runtime.PanicNilError\<close>, which is a \<open>PanicError\<close>.
\<close>

datatype panic_value = PanicNil | PanicError error | PanicOther string

text \<open>
  What \<^verbatim>\<open>recover()\<close> returns in a deferred call while the function panics with the
  value: the value itself, which is nil for a panic with nil.
\<close>

fun recovered :: "panic_value \<Rightarrow> panic_value option" where
  "recovered PanicNil = None"
| "recovered v = Some v"

text \<open>How a called function ends: it returns a value, or it panics.\<close>

datatype 'a outcome = Returns 'a | Panics panic_value

type_synonym field = "string \<times> string"

definition zap_String :: "string \<Rightarrow> string \<Rightarrow> field" where
  "zap_String k v = (k, v)"

definition zap_Error :: "error \<Rightarrow> field" where
  "zap_Error err = (''error'', Error_msg err)"

text \<open>
  A \<^verbatim>\<open>context.Context\<close>, by what this code reads from it: the incoming call metadata
  (absent, or a map from lower-case keys to value lists), the structured fields of the
  requester information that upstream layers attached (\<^verbatim>\<open>NewRequesterInfo(ctx).ZapFields()\<close>,
  opaque here), and the names of the spans it carries, innermost first.
\<close>

record Context =
  incoming_md :: "(string \<rightharpoonup> string list) option"
  requester_fields :: "field list"
  spans :: "string list"

definition Background :: Context where
  "Background = \<lparr>incoming_md = None, requester_fields = [], spans = []\<rparr>"

section \<open>Package tracing\<close>

datatype span_event = StartSpan string | Finish "error option"

text \<open>\<^verbatim>\<open>tracer.StartSpanFromContext\<close>: the span and the child context that carries it.\<close>

definition StartSpanFromContext :: "Context \<Rightarrow> string \<Rightarrow> string \<times> Context" where
  "StartSpanFromContext ctx spanName = (spanName, ctx\<lparr>spans := spanName # spans ctx\<rparr>)"

definition WithError :: "error \<Rightarrow> error option" where
  "WithError err = Some err"

text \<open>
  The deferred closure of \<^verbatim>\<open>Do\<close>. Its argument is what \<^verbatim>\<open>recover()\<close> returns there:
  \<open>None\<close> for nil, which is what it returns when the action returned and also when the
  action panicked with nil. It yields the span events it causes and the value it panics
  with again, if any. Once \<^verbatim>\<open>recover()\<close> has been called the panic of the action is
  over: \<open>Do\<close> panics only if the closure panics again.
\<close>

definition Do_deferred :: "panic_value option \<Rightarrow> span_event list \<times> panic_value option" where
  "Do_deferred r =
     (let finished =
            (case r of
               Some (PanicError e) \<Rightarrow> [Finish (WithError e)]
             | _ \<Rightarrow> [Finish None])
      in (finished, if r \<noteq> None then r else None))"

definition Do :: "Context \<Rightarrow> string \<Rightarrow> (Context \<Rightarrow> unit outcome) \<Rightarrow> span_event list \<times> unit outcome" where
  "Do ctx spanName action =
     (let (span, ctx') = StartSpanFromContext ctx spanName;
          r = (case action ctx' of Returns _ \<Rightarrow> None | Panics v \<Rightarrow> recovered v);
          (finished, repanic) = Do_deferred r
      in (StartSpan span # finished,
          case repanic of None \<Rightarrow> Returns () | Some v \<Rightarrow> Panics v))"

fun is_Finish :: "span_event \<Rightarrow> bool" where
  "is_Finish (Finish _) = True"
| "is_Finish (StartSpan _) = False"

section \<open>Strings\<close>

definition HasPrefix :: "string \<Rightarrow> string \<Rightarrow> bool" where
  "HasPrefix s pre = (take (length pre) s = pre)"

definition TrimPrefix :: "string \<Rightarrow> string \<Rightarrow> string" where
  "TrimPrefix s pre = (if HasPrefix s pre then drop (length pre) s else s)"

text \<open>\<^verbatim>\<open>strings.Index\<close>: the index of the first occurrence, or -1.\<close>

fun Index_from :: "nat \<Rightarrow> string \<Rightarrow> string \<Rightarrow> int" where
  "Index_from i [] substr = (if substr = [] then int i else - 1)"
| "Index_from i (c # cs) substr =
     (if HasPrefix (c # cs) substr then int i else Index_from (Suc i) cs substr)"

definition Index :: "string \<Rightarrow> string \<Rightarrow> int" where
  "Index s substr = Index_from 0 s substr"

text \<open>
  \<^verbatim>\<open>strings.Split\<close>: the pieces between the occurrences of the separator, scanning from
  the left; an empty separator splits into single characters.
\<close>

function Split_from :: "string \<Rightarrow> string \<Rightarrow> string \<Rightarrow> string list" where
  "Split_from sep acc [] = [acc]"
| "Split_from sep acc (c # cs) =
     (if sep \<noteq> [] \<and> HasPrefix (c # cs) sep
      then acc # Split_from sep [] (drop (length sep) (c # cs))
      else Split_from sep (acc @ [c]) cs)"
  by pat_completeness auto
termination
  by (relation "measure (\<lambda>(sep, acc, s). length s)") auto

definition Split :: "string \<Rightarrow> string \<Rightarrow> string list" where
  "Split s sep = (if sep = [] then map (\<lambda>c. [c]) s else Split_from sep [] s)"

definition HasSuffix :: "string \<Rightarrow> string \<Rightarrow> bool" where
  "HasSuffix s suf = (length suf \<le> length s \<and> drop (length s - length suf) s = suf)"

text \<open>
  A Go string is a sequence of bytes, read as UTF-8. The white space of
  \<^verbatim>\<open>unicode.IsSpace\<close>, each rune by its UTF-8 encoding: tab, line feed, vertical tab, form
  feed, carriage return, space; U+0085 and U+00A0; U+1680; U+2000 to U+200A; U+2028,
  U+2029, U+202F; U+205F; U+3000. A string begins (ends) with a white space rune exactly
  when it begins (ends) with one of these encodings: a byte sequence that is not valid
  UTF-8 decodes to the replacement rune, which is not white space.
\<close>

definition space_encodings :: "string list" where
  "space_encodings =
     [[CHR 0x09], [CHR 0x0A], [CHR 0x0B], [CHR 0x0C], [CHR 0x0D], [CHR 0x20],
      [CHR 0xC2, CHR 0x85], [CHR 0xC2, CHR 0xA0],
      [CHR 0xE1, CHR 0x9A, CHR 0x80],
      [CHR 0xE2, CHR 0x80, CHR 0x80], [CHR 0xE2, CHR 0x80, CHR 0x81],
      [CHR 0xE2, CHR 0x80, CHR 0x82], [CHR 0xE2, CHR 0x80, CHR 0x83],
      [CHR 0xE2, CHR 0x80, CHR 0x84], [CHR 0xE2, CHR 0x80, CHR 0x85],
      [CHR 0xE2, CHR 0x80, CHR 0x86], [CHR 0xE2, CHR 0x80, CHR 0x87],
      [CHR 0xE2, CHR 0x80, CHR 0x88], [CHR 0xE2, CHR 0x80, CHR 0x89],
      [CHR 0xE2, CHR 0x80, CHR 0x8A],
      [CHR 0xE2, CHR 0x80, CHR 0xA8], [CHR 0xE2, CHR 0x80, CHR 0xA9],
      [CHR 0xE2, CHR 0x80, CHR 0xAF],
      [CHR 0xE2, CHR 0x81, CHR 0x9F],
      [CHR 0xE3, CHR 0x80, CHR 0x80]]"

text \<open>
  \<^verbatim>\<open>strings.TrimLeftFunc(s, unicode.IsSpace)\<close>: white space runes are dropped from the
  left until the string begins with something else. The first argument is the list of
  encodings to drop.
\<close>

function TrimLeft_encodings :: "string list \<Rightarrow> string \<Rightarrow> string" where
  "TrimLeft_encodings encs [] = []"
| "TrimLeft_encodings encs (c # cs) =
     (case find (\<lambda>p. p \<noteq> [] \<and> HasPrefix (c # cs) p) encs of
        None \<Rightarrow> c # cs
      | Some p \<Rightarrow> TrimLeft_encodings encs (drop (length p) (c # cs)))"
  by pat_completeness auto
termination
  by (relation "measure (\<lambda>(encs, s). length s)") (auto simp: find_Some_iff)

definition TrimLeftSpace :: "string \<Rightarrow> string" where
  "TrimLeftSpace s = TrimLeft_encodings space_encodings s"

text \<open>\<^verbatim>\<open>strings.TrimRightFunc(s, unicode.IsSpace)\<close>: the same from the right.\<close>

definition TrimRightSpace :: "string \<Rightarrow> string" where
  "TrimRightSpace s = rev (TrimLeft_encodings (map rev space_encodings) (rev s))"

text \<open>
  \<^verbatim>\<open>strings.TrimSpace\<close>: all leading and all trailing white space removed. (The library
  runs over ASCII bytes first and falls back to \<^verbatim>\<open>TrimFunc\<close> and \<^verbatim>\<open>TrimRightFunc\<close> at
  the first byte that is not ASCII; the result is that of trimming on the left and then
  on the right.)
\<close>

definition TrimSpace :: "string \<Rightarrow> string" where
  "TrimSpace s = TrimRightSpace (TrimLeftSpace s)"

fun Join :: "string list \<Rightarrow> string \<Rightarrow> string" where
  "Join [] sep = []"
| "Join [x] sep = x"
| "Join (x # y # ys) sep = x @ sep @ Join (y # ys) sep"

section \<open>Telemetry interceptor\<close>

definition splitMethodName :: "string \<Rightarrow> string \<times> string" where
  "splitMethodName fullMethodName =
     (let fullMethodName = TrimPrefix fullMethodName ''/'';
          i = Index fullMethodName ''/''
      in if i \<ge> 0
         then (take (nat i) fullMethodName, drop (nat (i + 1)) fullMethodName)
         else (''unknown'', ''unknown''))"

datatype level = DebugLevel | InfoLevel | ErrorLevel

text \<open>
  What one call of the recorder leaves behind: one entry in the structured log and one
  emission to the metrics sink (\<^verbatim>\<open>metrics.EmitAPIRequest\<close>).
\<close>

record entry =
  entry_level :: level
  entry_msg :: string
  entry_fields :: "field list"

record sinks =
  logged :: "entry list"
  emitted :: "field list list"

text \<open>
  \<^verbatim>\<open>md.Get(k)\<close> on the metadata \<^verbatim>\<open>metadata.FromIncomingContext\<close> returned: the values
  under the key, none for a nil map or a missing key. The key the code passes is
  already lower-case.
\<close>

definition md_Get :: "(string \<rightharpoonup> string list) option \<Rightarrow> string \<Rightarrow> string list" where
  "md_Get md k =
     (case md of
        None \<Rightarrow> []
      | Some m \<Rightarrow> (case m k of None \<Rightarrow> [] | Some vs \<Rightarrow> vs))"

definition record_ti :: "Context \<Rightarrow> string \<Rightarrow> error option \<Rightarrow> sinks \<Rightarrow> sinks" where
  "record_ti ctx fullMethod err out =
     (let (serviceName, methodName) = splitMethodName fullMethod;
          fields = [zap_String ''service'' serviceName, zap_String ''method'' methodName]
                   @ requester_fields ctx;
          md = incoming_md ctx;
          ips = md_Get md ''x-forwarded-for'';
          fields =
            (if length ips > 0
             then (let ips = Split (ips ! 0) '','' in
                   fields @ [zap_String ''client_ip'' (TrimSpace (ips ! 0))])
             else fields);
          (logFn, fields) =
            (case err of
               None \<Rightarrow> (DebugLevel, fields)
             | Some e \<Rightarrow>
                 (let fields = fields @ [zap_Error e] in
                  (InfoLevel,
                   case status_FromError e of
                     None \<Rightarrow> fields
                   | Some (errCode, errMessage) \<Rightarrow>
                       fields @ [zap_String ''error_code'' errCode,
                                 zap_String ''error_message'' errMessage])))
      in out\<lparr>logged := logged out
                 @ [\<lparr>entry_level = logFn, entry_msg = ''api request'', entry_fields = fields\<rparr>],
             emitted := emitted out @ [fields]\<rparr>)"

text \<open>
  The unary interceptor: the handler runs first; the recorder runs when the handler has
  returned. There is no deferred call: a panic of the handler leaves the function at once.
\<close>

definition Unary ::
  "Context \<Rightarrow> 'req \<Rightarrow> string \<Rightarrow> (Context \<Rightarrow> 'req \<Rightarrow> ('res \<times> error option) outcome)
     \<Rightarrow> sinks \<Rightarrow> ('res \<times> error option) outcome \<times> sinks" where
  "Unary ctx req info_FullMethod handler out =
     (case handler ctx req of
        Panics v \<Rightarrow> (Panics v, out)
      | Returns (res, err) \<Rightarrow> (Returns (res, err), record_ti ctx info_FullMethod err out))"

record ServerStream =
  stream_Context :: Context

definition Stream ::
  "'srv \<Rightarrow> ServerStream \<Rightarrow> string \<Rightarrow> ('srv \<Rightarrow> ServerStream \<Rightarrow> error option outcome)
     \<Rightarrow> sinks \<Rightarrow> error option outcome \<times> sinks" where
  "Stream srv stream info_FullMethod handler out =
     (case handler srv stream of
        Panics v \<Rightarrow> (Panics v, out)
      | Returns res \<Rightarrow> (Returns res, record_ti (stream_Context stream) info_FullMethod None out))"

section \<open>The CORS wrapper of the HTTP gateway\<close>

text \<open>
  \<^verbatim>\<open>http.Header\<close> is a map from canonical header names to value lists; every name the
  code passes is written in canonical form already, and the headers of a parsed request
  are stored under canonical names.
\<close>

type_synonym Header = "string \<rightharpoonup> string list"

definition Header_Set :: "Header \<Rightarrow> string \<Rightarrow> string \<Rightarrow> Header" where
  "Header_Set h k v = h(k \<mapsto> [v])"

definition Header_Get :: "Header \<Rightarrow> string \<Rightarrow> string" where
  "Header_Get h k = (case h k of None \<Rightarrow> [] | Some [] \<Rightarrow> [] | Some (v # _) \<Rightarrow> v)"

record Request =
  Method :: string
  URL_Path :: string
  req_Header :: Header

record ResponseWriter =
  resp_Header :: Header
  resp_status :: "nat option"
  resp_body :: string

type_synonym Handler = "ResponseWriter \<Rightarrow> Request \<Rightarrow> ResponseWriter"

definition preflightHandler :: Handler where
  "preflightHandler w r =
     (let headers = [''Content-Type'', ''Accept'', ''Authorization'', ''X-Client-Version'',
                     ''X-App-Version'', ''Baggage'', ''DNT'', ''Sec-CH-UA'', ''Sec-CH-UA-Mobile'',
                     ''Sec-CH-UA-Platform'', ''Sentry-Trace'', ''User-Agent''];
          w = w\<lparr>resp_Header :=
                  Header_Set (resp_Header w) ''Access-Control-Allow-Headers'' (Join headers '','')\<rparr>;
          methods = [''GET'', ''HEAD'', ''POST'', ''PUT'', ''PATCH'', ''DELETE'']
      in w\<lparr>resp_Header :=
              Header_Set (resp_Header w) ''Access-Control-Allow-Methods'' (Join methods '','')\<rparr>)"

definition allowCORS :: "Handler \<Rightarrow> Handler" where
  "allowCORS h w r =
     (let w = w\<lparr>resp_Header := Header_Set (resp_Header w) ''Access-Control-Allow-Origin'' ''*''\<rparr>
      in if Method r = ''OPTIONS''
            \<and> Header_Get (req_Header r) ''Access-Control-Request-Method'' \<noteq> []
         then preflightHandler w r
         else h w r)"

section \<open>The server: construction and shutdown\<close>

datatype transport = GRPC | HTTP

datatype service = MessageV1 | MessageV3

datatype interceptor = PrometheusInterceptor | TelemetryInterceptor | WalletAuthorizer

text \<open>
  What the server does to the world around it, in the order it does it: listeners bound
  and closed, the transport server created with its two interceptor chains, services
  created and registered, gateway handlers registered, services closed, tasks started by
  a plain \<^verbatim>\<open>go\<close> statement and tasks started by \<^verbatim>\<open>tracing.GoPanicWrap\<close>, log lines,
  and the wait on the wait group. The two chains of \<open>NewServer\<close> are the slices given
  to \<^verbatim>\<open>middleware.ChainUnaryServer\<close> and \<^verbatim>\<open>middleware.ChainStreamServer\<close>, in their
  order: the first interceptor is the outermost, the last one calls the handler.
\<close>

datatype event =
    NetListen transport
  | ListenerClose transport
  | NewServer "interceptor list" "interceptor list"
  | RegisterService service
  | DialContext
  | RegisterHandler service
  | ServiceClose service
  | GoStmt string
  | GoPanicWrapped string
  | Log level string
  | WaitGroupWait

text \<open>
  The configuration, by the fields that decide the control flow: \<^verbatim>\<open>Authn.Enable\<close>,
  whether \<^verbatim>\<open>MlsStore\<close> is non-nil, and \<^verbatim>\<open>EnableMls\<close>.
\<close>

record Config =
  Authn_Enable :: bool
  MlsStore_present :: bool
  EnableMls :: bool

text \<open>
  The results of the calls that leave the package, \<open>None\<close> for success:
  \<^verbatim>\<open>config.validate()\<close>, the two \<^verbatim>\<open>net.Listen\<close> calls, the two \<^verbatim>\<open>NewService\<close> calls,
  \<^verbatim>\<open>grpc.DialContext\<close>, the two gateway registrations and the two listener
  \<^verbatim>\<open>Close\<close> calls.
\<close>

record env =
  validate_result :: "error option"
  listen_grpc :: "error option"
  new_messagev1 :: "error option"
  new_messagev3 :: "error option"
  dial_grpc :: "error option"
  register_message_handler :: "error option"
  register_mls_handler :: "error option"
  listen_http :: "error option"
  close_http :: "error option"
  close_grpc :: "error option"

record Server =
  config :: Config
  grpcListener :: "transport option"
  httpListener :: "transport option"
  messagev1 :: "service option"
  messagev3 :: "service option"
  wg :: nat
  server_ctx :: Context
  authorizer :: "interceptor option"

text \<open>
  Modelled from the spec: \<^verbatim>\<open>tracing.GoPanicWrap\<close>, whose source is not among the files
  verified here. By the specification it registers the task with the server's joiner,
  starts it on its own thread of control and wraps its body in \<^verbatim>\<open>Do\<close>, logging an
  unrecovered fault instead of ending the process. In this model: the wait group counts
  one more task, and the start of the wrapped task is an event.
\<close>

definition GoPanicWrap :: "string \<Rightarrow> Server \<times> event list \<Rightarrow> Server \<times> event list" where
  "GoPanicWrap name st =
     (case st of (s, tr) \<Rightarrow> (s\<lparr>wg := Suc (wg s)\<rparr>, tr @ [GoPanicWrapped name]))"

definition mls_enabled :: "Server \<Rightarrow> bool" where
  "mls_enabled s = (MlsStore_present (config s) \<and> EnableMls (config s))"

definition startGRPC :: "env \<Rightarrow> Server \<times> event list \<Rightarrow> error option \<times> Server \<times> event list" where
  "startGRPC e st =
     (case st of (s, tr) \<Rightarrow>
      (case listen_grpc e of
         Some err \<Rightarrow> (Some (Wrap err ''creating grpc listener''), s, tr)
       | None \<Rightarrow>
          (let s = s\<lparr>grpcListener := Some GRPC\<rparr>;
               tr = tr @ [NetListen GRPC];
               unary = [PrometheusInterceptor];
               stream = [PrometheusInterceptor];
               unary = unary @ [TelemetryInterceptor];
               stream = stream @ [TelemetryInterceptor];
               (s, tr, unary, stream) =
                 (if Authn_Enable (config s)
                  then (s\<lparr>authorizer := Some WalletAuthorizer\<rparr>,
                        tr @ [GoStmt ''Janitor''],
                        unary @ [WalletAuthorizer],
                        stream @ [WalletAuthorizer])
                  else (s, tr, unary, stream));
               tr = tr @ [NewServer unary stream]
           in (case new_messagev1 e of
                 Some err \<Rightarrow> (Some (Wrap err ''creating message service''), s, tr)
               | None \<Rightarrow>
                  (let s = s\<lparr>messagev1 := Some MessageV1\<rparr>;
                       tr = tr @ [RegisterService MessageV1]
                   in if mls_enabled s
                      then (case new_messagev3 e of
                              Some err \<Rightarrow> (Some (Wrap err ''creating mls service''), s, tr)
                            | None \<Rightarrow>
                               (case GoPanicWrap ''grpc''
                                       (s\<lparr>messagev3 := Some MessageV3\<rparr>,
                                        tr @ [RegisterService MessageV3]) of
                                  (s, tr) \<Rightarrow> (None, s, tr)))
                      else (case GoPanicWrap ''grpc'' (s, tr) of
                              (s, tr) \<Rightarrow> (None, s, tr)))))))"

definition startHTTP :: "env \<Rightarrow> Server \<times> event list \<Rightarrow> error option \<times> Server \<times> event list" where
  "startHTTP e st =
     (case st of (s, tr) \<Rightarrow>
      (case dial_grpc e of
         Some err \<Rightarrow> (Some (Wrap err ''dialing grpc server''), s, tr)
       | None \<Rightarrow>
          (let tr = tr @ [DialContext] in
           (case register_message_handler e of
              Some err \<Rightarrow> (Some (Wrap err ''registering message handler''), s, tr)
            | None \<Rightarrow>
               (let tr = tr @ [RegisterHandler MessageV1] in
                (case (if mls_enabled s then register_mls_handler e else None) of
                   Some err \<Rightarrow> (Some (Wrap err ''registering mls handler''), s, tr)
                 | None \<Rightarrow>
                    (let tr = (if mls_enabled s then tr @ [RegisterHandler MessageV3] else tr) in
                     (case listen_http e of
                        Some err \<Rightarrow> (Some (Wrap err ''creating grpc-gateway listener''), s, tr)
                      | None \<Rightarrow>
                         (case GoPanicWrap ''http''
                                 (s\<lparr>httpListener := Some HTTP\<rparr>, tr @ [NetListen HTTP]) of
                            (s, tr) \<Rightarrow> (None, s, tr))))))))))"

text \<open>
  \<^verbatim>\<open>New\<close> returns \<^verbatim>\<open>(nil, err)\<close> or \<^verbatim>\<open>(s, nil)\<close>; what it has done to the world by then
  is the event list.
\<close>

definition New :: "env \<Rightarrow> Config \<Rightarrow> (error + Server) \<times> event list" where
  "New e cfg =
     (case validate_result e of
        Some err \<Rightarrow> (Inl err, [])
      | None \<Rightarrow>
         (let s = \<lparr>config = cfg, grpcListener = None, httpListener = None,
                   messagev1 = None, messagev3 = None, wg = 0,
                   server_ctx = Background, authorizer = None\<rparr>
          in (case startGRPC e (s, []) of
                (Some err, s, tr) \<Rightarrow> (Inl err, tr)
              | (None, s, tr) \<Rightarrow>
                 (case startHTTP e (s, tr) of
                    (Some err, s, tr) \<Rightarrow> (Inl err, tr)
                  | (None, s, tr) \<Rightarrow> (Inr s, tr)))))"

definition Close :: "env \<Rightarrow> Server \<Rightarrow> event list" where
  "Close e s =
     [Log InfoLevel ''closing'']
     @ (case messagev1 s of None \<Rightarrow> [] | Some m \<Rightarrow> [ServiceClose m])
     @ (case httpListener s of
          None \<Rightarrow> []
        | Some l \<Rightarrow>
           ListenerClose l
           # (case close_http e of
                None \<Rightarrow> []
              | Some err \<Rightarrow> [Log ErrorLevel ''closing http listener'']))
     @ (case grpcListener s of
          None \<Rightarrow> []
        | Some l \<Rightarrow>
           ListenerClose l
           # (case close_grpc e of
                None \<Rightarrow> []
              | Some err \<Rightarrow> [Log ErrorLevel ''closing grpc listener'']))
     @ [WaitGroupWait, Log InfoLevel ''closed'']"

subsection \<open>Reading an event list\<close>

text \<open>The listeners that are open after the events: bound and not closed since.\<close>

fun listener_step :: "transport list \<Rightarrow> event \<Rightarrow> transport list" where
  "listener_step ls (NetListen t) = t # ls"
| "listener_step ls (ListenerClose t) = removeAll t ls"
| "listener_step ls _ = ls"

definition open_listeners :: "event list \<Rightarrow> transport list" where
  "open_listeners tr = foldl listener_step [] tr"

text \<open>The tasks started, each with how it was started.\<close>

datatype spawn = PlainGo | ThroughGoPanicWrap

fun spawned :: "event list \<Rightarrow> (string \<times> spawn) list" where
  "spawned [] = []"
| "spawned (GoStmt n # tr) = (n, PlainGo) # spawned tr"
| "spawned (GoPanicWrapped n # tr) = (n, ThroughGoPanicWrap) # spawned tr"
| "spawned (_ # tr) = spawned tr"

text \<open>The interceptor chains the transport server was created with.\<close>

fun chains :: "event list \<Rightarrow> (interceptor list \<times> interceptor list) list" where
  "chains [] = []"
| "chains (NewServer u st # tr) = (u, st) # chains tr"
| "chains (_ # tr) = chains tr"

text \<open>The steps of a shutdown among the events: what is closed, and the wait.\<close>

fun is_shutdown_step :: "event \<Rightarrow> bool" where
  "is_shutdown_step (ServiceClose _) = True"
| "is_shutdown_step (ListenerClose _) = True"
| "is_shutdown_step WaitGroupWait = True"
| "is_shutdown_step _ = False"

text \<open>The error lines among the events.\<close>

fun is_error_log :: "event \<Rightarrow> bool" where
  "is_error_log (Log ErrorLevel _) = True"
| "is_error_log _ = False"

subsection \<open>Reading what the recorder emitted\<close>

text \<open>The fields of the entry logged last, and the client addresses among some fields.\<close>

definition recorded_fields :: "sinks \<Rightarrow> field list" where
  "recorded_fields out = entry_fields (last (logged out))"

definition client_ips :: "field list \<Rightarrow> string list" where
  "client_ips fs = map snd (filter (\<lambda>f. fst f = ''client_ip'') fs)"

section \<open>Concrete inputs\<close>

text \<open>Handlers that fail and handlers that panic, empty sinks, and a forwarded call.\<close>

definition no_sinks :: sinks where
  "no_sinks = \<lparr>logged = [], emitted = []\<rparr>"

definition failing_unary :: "Context \<Rightarrow> unit \<Rightarrow> (unit \<times> error option) outcome" where
  "failing_unary ctx req = Returns ((), Some (StatusError ''PermissionDenied'' ''no''))"

definition panicking_unary :: "Context \<Rightarrow> unit \<Rightarrow> (unit \<times> error option) outcome" where
  "panicking_unary ctx req = Panics (PanicOther ''boom'')"

definition failing_stream :: "unit \<Rightarrow> ServerStream \<Rightarrow> error option outcome" where
  "failing_stream srv stream = Returns (Some (StatusError ''PermissionDenied'' ''no''))"

definition panicking_stream :: "unit \<Rightarrow> ServerStream \<Rightarrow> error option outcome" where
  "panicking_stream srv stream = Panics (PanicOther ''boom'')"

definition background_stream :: ServerStream where
  "background_stream = \<lparr>stream_Context = Background\<rparr>"

definition forwarded_ctx :: Context where
  "forwarded_ctx = \<lparr>incoming_md = Some [''x-forwarded-for'' \<mapsto> [''203.0.113.5, 10.0.0.1'']],
                    requester_fields = [], spans = []\<rparr>"

text \<open>
  The same call with white space around the first address: a no-break space (U+00A0) and
  a space before it, a space and a tab after it.
\<close>

definition padded_forwarded_ctx :: Context where
  "padded_forwarded_ctx =
     \<lparr>incoming_md = Some [''x-forwarded-for'' \<mapsto>
         [[CHR 0xC2, CHR 0xA0] @ '' 203.0.113.5 '' @ [CHR 0x09] @ '', 10.0.0.1'']],
      requester_fields = [], spans = []\<rparr>"

text \<open>An action that panics with nil.\<close>

definition nil_panicking_action :: "Context \<Rightarrow> unit outcome" where
  "nil_panicking_action ctx = Panics PanicNil"

text \<open>Requests with and without the request-method header, and a handler that answers 200.\<close>

definition blank_response :: ResponseWriter where
  "blank_response = \<lparr>resp_Header = Map.empty, resp_status = None, resp_body = []\<rparr>"

definition preflight_request :: Request where
  "preflight_request = \<lparr>Method = ''OPTIONS'', URL_Path = ''/message/v1/publish'',
      req_Header = [''Access-Control-Request-Method'' \<mapsto> [''POST'']]\<rparr>"

definition options_request :: Request where
  "options_request = \<lparr>Method = ''OPTIONS'', URL_Path = ''/message/v1/publish'',
      req_Header = Map.empty\<rparr>"

definition ok_handler :: Handler where
  "ok_handler w r = w\<lparr>resp_status := Some 200\<rparr>"

text \<open>
  A world in which every outside call succeeds, one in which only the bind of the HTTP
  listener fails, and three configurations.
\<close>

definition env_ok :: env where
  "env_ok = \<lparr>validate_result = None, listen_grpc = None, new_messagev1 = None,
             new_messagev3 = None, dial_grpc = None, register_message_handler = None,
             register_mls_handler = None, listen_http = None, close_http = None,
             close_grpc = None\<rparr>"

definition env_http_bind_fails :: env where
  "env_http_bind_fails = env_ok\<lparr>listen_http := Some (GoError ''address already in use'')\<rparr>"

definition cfg_plain :: Config where
  "cfg_plain = \<lparr>Authn_Enable = False, MlsStore_present = False, EnableMls = False\<rparr>"

definition cfg_authn :: Config where
  "cfg_authn = \<lparr>Authn_Enable = True, MlsStore_present = False, EnableMls = False\<rparr>"

definition cfg_mls :: Config where
  "cfg_mls = \<lparr>Authn_Enable = False, MlsStore_present = True, EnableMls = True\<rparr>"

text \<open>The server that \<open>New\<close> returns for \<open>cfg_mls\<close> when every outside call succeeds.\<close>

definition server_mls :: Server where
  "server_mls = \<lparr>config = cfg_mls, grpcListener = Some GRPC, httpListener = Some HTTP,
                  messagev1 = Some MessageV1, messagev3 = Some MessageV3, wg = 2,
                  server_ctx = Background, authorizer = None\<rparr>"

section \<open>Properties of package tracing\<close>

lemma recovered_eq: "recovered v = (if v = PanicNil then None else Some v)"
  by (cases v) simp_all

text \<open>
  What holds of every call \<open>Do ctx spanName action\<close>: the span is finished exactly once,
  with the error as its tag exactly when the action panicked with an error; and unless
  the action panicked with nil, \<open>Do\<close> ends the way the action ended.
\<close>

lemma Do_finishes_span_once:
  "filter is_Finish (fst (Do ctx spanName action)) =
       [Finish (case action (snd (StartSpanFromContext ctx spanName)) of
                  Panics (PanicError e) \<Rightarrow> Some e
                | _ \<Rightarrow> None)]"
  by (simp add: Do_def Do_deferred_def StartSpanFromContext_def WithError_def Let_def
           split: outcome.splits panic_value.splits prod.splits)

lemma Do_ends_as_action_unless_nil_panic:
  "action (snd (StartSpanFromContext ctx spanName)) \<noteq> Panics PanicNil \<Longrightarrow>
     snd (Do ctx spanName action) = action (snd (StartSpanFromContext ctx spanName))"
  by (auto simp add: Do_def Do_deferred_def StartSpanFromContext_def WithError_def Let_def
           recovered_eq split: outcome.splits prod.splits)

text \<open>
  C5. The fault of the action does not always come out of \<open>Do\<close> again. When the action
  panics with nil, \<^verbatim>\<open>recover()\<close> returns nil in the deferred closure, as it does when
  nothing panicked: the span is finished without a tag, the test \<^verbatim>\<open>r != nil\<close> fails, and
  \<open>Do\<close> returns to its caller as if the action had returned.
\<close>

theorem Do_swallows_nil_panic:
  "nil_panicking_action (snd (StartSpanFromContext Background ''span'')) = Panics PanicNil
   \<and> Do Background ''span'' nil_panicking_action
       = ([StartSpan ''span'', Finish None], Returns ())"
  by (simp add: Do_def Do_deferred_def StartSpanFromContext_def nil_panicking_action_def Let_def)

section \<open>Properties of the strings functions\<close>

lemma Index_from_slash:
  "Index_from i s ''/'' =
     (if CHR ''/'' \<in> set s then int (i + length (takeWhile (\<lambda>c. c \<noteq> CHR ''/'') s)) else - 1)"
  by (induction s arbitrary: i) (auto simp: HasPrefix_def)

lemma Index_slash:
  "Index s ''/'' =
     (if CHR ''/'' \<in> set s then int (length (takeWhile (\<lambda>c. c \<noteq> CHR ''/'') s)) else - 1)"
  by (simp add: Index_def Index_from_slash)

lemma split_at_first:
  assumes "x \<in> set s"
  shows "s = takeWhile (\<lambda>c. c \<noteq> x) s @ x # drop (Suc (length (takeWhile (\<lambda>c. c \<noteq> x) s))) s"
  using assms by (induction s) auto

lemma Split_from_nonempty: "Split_from sep acc s \<noteq> []"
  by (induction sep acc s rule: Split_from.induct) auto

lemma Split_from_first:
  "Split_from [x] acc s ! 0 = acc @ takeWhile (\<lambda>c. c \<noteq> x) s"
  by (induction s arbitrary: acc) (auto simp: HasPrefix_def)

lemma Split_comma_first: "Split v '','' ! 0 = takeWhile (\<lambda>c. c \<noteq> CHR '','') v"
  by (simp add: Split_def Split_from_first)

lemma HasPrefix_append: "HasPrefix s p \<longleftrightarrow> (\<exists>r. s = p @ r)"
  unfolding HasPrefix_def
  by (metis append_eq_conv_conj append_take_drop_id)

lemma HasSuffix_append: "HasSuffix s p \<longleftrightarrow> (\<exists>r. s = r @ p)"
  unfolding HasSuffix_def
  by (metis append_eq_conv_conj append_take_drop_id diff_add_inverse2 le_add2 length_append
      length_drop)

lemma HasSuffix_rev: "HasPrefix (rev s) (rev p) \<longleftrightarrow> HasSuffix s p"
  unfolding HasPrefix_append HasSuffix_append
  by (metis rev_append rev_rev_ident)

lemma HasPrefix_appendI: "HasPrefix u p \<Longrightarrow> HasPrefix (u @ x) p"
  unfolding HasPrefix_append by auto

lemma space_encodings_nonempty: "[] \<notin> set space_encodings"
  by (simp add: space_encodings_def)

text \<open>
  Trimming on the left takes a sequence of the given encodings off the front and leaves
  a string that begins with none of them.
\<close>

lemma TrimLeft_encodings_spec:
  "\<exists>ws. set ws \<subseteq> set encs \<and> s = concat ws @ TrimLeft_encodings encs s
      \<and> (\<forall>p\<in>set encs. p \<noteq> [] \<longrightarrow> \<not> HasPrefix (TrimLeft_encodings encs s) p)"
proof (induction encs s rule: TrimLeft_encodings.induct)
  case (1 encs)
  have "set [] \<subseteq> set encs \<and> [] = concat [] @ TrimLeft_encodings encs []
      \<and> (\<forall>p\<in>set encs. p \<noteq> [] \<longrightarrow> \<not> HasPrefix (TrimLeft_encodings encs []) p)"
    by (auto simp: HasPrefix_def)
  then show ?case by blast
next
  case (2 encs c cs)
  show ?case
  proof (cases "find (\<lambda>p. p \<noteq> [] \<and> HasPrefix (c # cs) p) encs")
    case None
    then have "\<forall>p\<in>set encs. p \<noteq> [] \<longrightarrow> \<not> HasPrefix (c # cs) p"
      by (auto simp: find_None_iff)
    with None have "set [] \<subseteq> set encs \<and> c # cs = concat [] @ TrimLeft_encodings encs (c # cs)
      \<and> (\<forall>p\<in>set encs. p \<noteq> [] \<longrightarrow> \<not> HasPrefix (TrimLeft_encodings encs (c # cs)) p)"
      by simp
    then show ?thesis by blast
  next
    case (Some p)
    then have p: "p \<in> set encs" "HasPrefix (c # cs) p"
      by (auto simp: find_Some_iff)
    from "2.IH" [OF Some] obtain ws where ws: "set ws \<subseteq> set encs"
      "drop (length p) (c # cs) = concat ws @ TrimLeft_encodings encs (drop (length p) (c # cs))"
      "\<forall>q\<in>set encs. q \<noteq> [] \<longrightarrow>
         \<not> HasPrefix (TrimLeft_encodings encs (drop (length p) (c # cs))) q"
      by blast
    have t: "TrimLeft_encodings encs (c # cs) = TrimLeft_encodings encs (drop (length p) (c # cs))"
      using Some by simp
    have "c # cs = p @ drop (length p) (c # cs)"
      using p(2) unfolding HasPrefix_def by (metis append_take_drop_id)
    then have "c # cs = concat (p # ws) @ TrimLeft_encodings encs (c # cs)"
      using ws(2) t by simp
    moreover have "set (p # ws) \<subseteq> set encs" using p(1) ws(1) by simp
    ultimately show ?thesis using ws(3) t by metis
  qed
qed

text \<open>
  \<open>TrimSpace\<close> takes white space runes, and nothing else, off both ends, and leaves a
  string that neither begins nor ends with a white space rune.
\<close>

lemma TrimSpace_spec:
  "\<exists>lead trail. set lead \<subseteq> set space_encodings \<and> set trail \<subseteq> set space_encodings
      \<and> s = concat lead @ TrimSpace s @ concat trail
      \<and> (\<forall>p\<in>set space_encodings. \<not> HasPrefix (TrimSpace s) p \<and> \<not> HasSuffix (TrimSpace s) p)"
proof -
  let ?t = "TrimLeftSpace s"
  let ?u = "TrimSpace s"
  obtain lead where lead: "set lead \<subseteq> set space_encodings" "s = concat lead @ ?t"
    and nopre: "\<forall>p\<in>set space_encodings. p \<noteq> [] \<longrightarrow> \<not> HasPrefix ?t p"
    using TrimLeft_encodings_spec [of space_encodings s] unfolding TrimLeftSpace_def by blast
  obtain ws where ws: "set ws \<subseteq> set (map rev space_encodings)"
      "rev ?t = concat ws @ TrimLeft_encodings (map rev space_encodings) (rev ?t)"
    and nosuf: "\<forall>q\<in>set (map rev space_encodings). q \<noteq> [] \<longrightarrow>
        \<not> HasPrefix (TrimLeft_encodings (map rev space_encodings) (rev ?t)) q"
    using TrimLeft_encodings_spec [of "map rev space_encodings" "rev ?t"] by blast
  have u: "rev ?u = TrimLeft_encodings (map rev space_encodings) (rev ?t)"
    by (simp add: TrimSpace_def TrimRightSpace_def)
  let ?trail = "map rev (rev ws)"
  have "rev (rev ?t) = rev (concat ws @ rev ?u)"
    using ws(2) u by simp
  then have t: "?t = ?u @ concat ?trail"
    by (simp add: rev_concat)
  have trail: "set ?trail \<subseteq> set space_encodings"
    using ws(1) by auto
  have a: "\<not> HasPrefix ?u p \<and> \<not> HasSuffix ?u p" if p: "p \<in> set space_encodings" for p
  proof
    have pne: "p \<noteq> []" using p space_encodings_nonempty by auto
    show "\<not> HasPrefix ?u p"
    proof
      assume "HasPrefix ?u p"
      then have "HasPrefix (?u @ concat ?trail) p" by (rule HasPrefix_appendI)
      with t have "HasPrefix ?t p" by simp
      with nopre p pne show False by blast
    qed
    have "rev p \<in> set (map rev space_encodings)" "rev p \<noteq> []"
      using p pne by auto
    with nosuf u have "\<not> HasPrefix (rev ?u) (rev p)" by metis
    then show "\<not> HasSuffix ?u p" by (simp add: HasSuffix_rev)
  qed
  have "s = concat lead @ ?u @ concat ?trail"
    using lead(2) t by simp
  with lead(1) trail a show ?thesis by blast
qed

lemma TrimSpace_example: "TrimSpace ''203.0.113.5'' = ''203.0.113.5''"
  by (simp add: TrimSpace_def TrimLeftSpace_def TrimRightSpace_def space_encodings_def
        HasPrefix_def)

lemma TrimSpace_padded_example:
  "TrimSpace ([CHR 0xC2, CHR 0xA0] @ '' 203.0.113.5 '' @ [CHR 0x09]) = ''203.0.113.5''"
  by (simp add: TrimSpace_def TrimLeftSpace_def TrimRightSpace_def space_encodings_def
        HasPrefix_def)

section \<open>Properties of the telemetry interceptor\<close>

text \<open>
  C8. For every full method name: with the leading slash removed, a name that holds a
  separator is cut at its first one, the service name being the part before it (which
  holds no separator) and the method name all that follows it; a name that holds no
  separator gives the sentinel \<open>unknown\<close> twice. The function is total: it never fails.
\<close>

theorem splitMethodName_first_separator:
  "(CHR ''/'' \<in> set (TrimPrefix f ''/'') \<longrightarrow>
      (\<exists>svc m. splitMethodName f = (svc, m) \<and> TrimPrefix f ''/'' = svc @ ''/'' @ m
          \<and> CHR ''/'' \<notin> set svc))
   \<and> (CHR ''/'' \<notin> set (TrimPrefix f ''/'') \<longrightarrow>
        splitMethodName f = (''unknown'', ''unknown''))"
proof (intro conjI impI)
  let ?n = "TrimPrefix f ''/''"
  let ?svc = "takeWhile (\<lambda>c. c \<noteq> CHR ''/'') ?n"
  assume sep: "CHR ''/'' \<in> set ?n"
  have res: "splitMethodName f = (?svc, drop (Suc (length ?svc)) ?n)"
    using sep takeWhile_eq_take [of "\<lambda>c. c \<noteq> CHR ''/''" ?n, symmetric]
    by (simp add: splitMethodName_def Index_slash Let_def nat_add_distrib)
  have dec: "?n = ?svc @ ''/'' @ drop (Suc (length ?svc)) ?n"
    using split_at_first [OF sep] by simp
  have "CHR ''/'' \<notin> set ?svc"
    by (auto dest: set_takeWhileD)
  with res dec show "\<exists>svc m. splitMethodName f = (svc, m) \<and> ?n = svc @ ''/'' @ m
          \<and> CHR ''/'' \<notin> set svc"
    by blast
next
  assume "CHR ''/'' \<notin> set (TrimPrefix f ''/'')"
  then show "splitMethodName f = (''unknown'', ''unknown'')"
    by (simp add: splitMethodName_def Index_slash Let_def)
qed

theorem splitMethodName_first_separator_witness:
  "CHR ''/'' \<in> set (TrimPrefix ''/xmtp.message_api.v1.MessageApi/Publish'' ''/'')
   \<and> (\<exists>svc m. splitMethodName ''/xmtp.message_api.v1.MessageApi/Publish'' = (svc, m)
         \<and> TrimPrefix ''/xmtp.message_api.v1.MessageApi/Publish'' ''/'' = svc @ ''/'' @ m
         \<and> CHR ''/'' \<notin> set svc)
   \<and> CHR ''/'' \<notin> set (TrimPrefix ''/Publish'' ''/'')
   \<and> splitMethodName ''/Publish'' = (''unknown'', ''unknown'')"
proof -
  have a: "CHR ''/'' \<in> set (TrimPrefix ''/xmtp.message_api.v1.MessageApi/Publish'' ''/'')"
    by (simp add: TrimPrefix_def HasPrefix_def)
  have b: "CHR ''/'' \<notin> set (TrimPrefix ''/Publish'' ''/'')"
    by (simp add: TrimPrefix_def HasPrefix_def)
  from a b
    splitMethodName_first_separator [of "''/xmtp.message_api.v1.MessageApi/Publish''"]
    splitMethodName_first_separator [of "''/Publish''"]
  show ?thesis by blast
qed

lemma record_ti_logged_length:
  "length (logged (record_ti ctx fm err out)) = Suc (length (logged out))"
  by (simp add: record_ti_def Let_def split: prod.splits option.splits)

lemma record_ti_emitted_length:
  "length (emitted (record_ti ctx fm err out)) = Suc (length (emitted out))"
  by (simp add: record_ti_def Let_def split: prod.splits option.splits)

lemma record_ti_nil_entry:
  "last (logged (record_ti ctx fm None out)) =
     \<lparr>entry_level = DebugLevel, entry_msg = ''api request'',
      entry_fields =
        [(''service'', fst (splitMethodName fm)), (''method'', snd (splitMethodName fm))]
        @ requester_fields ctx
        @ (case md_Get (incoming_md ctx) ''x-forwarded-for'' of
             [] \<Rightarrow> []
           | v # _ \<Rightarrow> [(''client_ip'', TrimSpace (Split v '','' ! 0))])\<rparr>"
  by (simp add: record_ti_def Let_def zap_String_def split: prod.splits list.splits)

text \<open>
  C2, as the code has it. Through either telemetry interceptor, a call whose handler
  returns, with success or with an error, is recorded exactly once: one entry more in
  the log and one emission more to the metrics sink. A call whose handler panics is not
  recorded: the interceptor is left by the panic, with the same value, and the sinks are
  as they were.
\<close>

theorem telemetry_records_once_when_handler_returns:
  "(handler ctx req = Returns (res, err) \<longrightarrow>
      Unary ctx req fm handler out = (Returns (res, err), record_ti ctx fm err out)
      \<and> length (logged (snd (Unary ctx req fm handler out))) = Suc (length (logged out))
      \<and> length (emitted (snd (Unary ctx req fm handler out))) = Suc (length (emitted out)))
   \<and> (handler ctx req = Panics v \<longrightarrow> Unary ctx req fm handler out = (Panics v, out))
   \<and> (shandler srv stream = Returns sres \<longrightarrow>
      length (logged (snd (Stream srv stream fm shandler out))) = Suc (length (logged out))
      \<and> length (emitted (snd (Stream srv stream fm shandler out))) = Suc (length (emitted out)))
   \<and> (shandler srv stream = Panics v \<longrightarrow> Stream srv stream fm shandler out = (Panics v, out))"
  by (simp add: Unary_def Stream_def record_ti_logged_length record_ti_emitted_length)

theorem telemetry_records_once_when_handler_returns_witness:
  "failing_unary Background () = Returns ((), Some (StatusError ''PermissionDenied'' ''no''))
   \<and> length (logged (snd (Unary Background () ''/svc/Method'' failing_unary no_sinks)))
       = Suc (length (logged no_sinks))
   \<and> panicking_unary Background () = Panics (PanicOther ''boom'')
   \<and> Unary Background () ''/svc/Method'' panicking_unary no_sinks
       = (Panics (PanicOther ''boom''), no_sinks)
   \<and> failing_stream () background_stream = Returns (Some (StatusError ''PermissionDenied'' ''no''))
   \<and> length (logged (snd (Stream () background_stream ''/svc/Method'' failing_stream no_sinks)))
       = Suc (length (logged no_sinks))
   \<and> panicking_stream () background_stream = Panics (PanicOther ''boom'')
   \<and> Stream () background_stream ''/svc/Method'' panicking_stream no_sinks
       = (Panics (PanicOther ''boom''), no_sinks)"
proof -
  have a: "failing_unary Background () = Returns ((), Some (StatusError ''PermissionDenied'' ''no''))"
    by (simp add: failing_unary_def)
  have b: "panicking_unary Background () = Panics (PanicOther ''boom'')"
    by (simp add: panicking_unary_def)
  have c: "failing_stream () background_stream = Returns (Some (StatusError ''PermissionDenied'' ''no''))"
    by (simp add: failing_stream_def)
  have d: "panicking_stream () background_stream = Panics (PanicOther ''boom'')"
    by (simp add: panicking_stream_def)
  note r = telemetry_records_once_when_handler_returns
      [where handler = failing_unary and ctx = Background and req = "()"
      and res = "()" and err = "Some (StatusError ''PermissionDenied'' ''no'')"
      and fm = "''/svc/Method''" and out = no_sinks and shandler = failing_stream
      and srv = "()" and stream = background_stream
      and sres = "Some (StatusError ''PermissionDenied'' ''no'')"]
  note p = telemetry_records_once_when_handler_returns
      [where handler = panicking_unary and ctx = Background and req = "()"
      and v = "PanicOther ''boom''"
      and fm = "''/svc/Method''" and out = no_sinks and shandler = panicking_stream
      and srv = "()" and stream = background_stream]
  from a b c d r p show ?thesis by blast
qed

text \<open>
  The claim as it was made (one record also when the handler panics) fails: with a handler
  that panics, neither interceptor records anything.
\<close>

theorem telemetry_no_record_when_handler_panics:
  "length (logged (snd (Unary Background () ''/svc/Method'' panicking_unary no_sinks))) = 0
   \<and> length (emitted (snd (Unary Background () ''/svc/Method'' panicking_unary no_sinks))) = 0
   \<and> fst (Unary Background () ''/svc/Method'' panicking_unary no_sinks) = Panics (PanicOther ''boom'')
   \<and> length (logged (snd (Stream () background_stream ''/svc/Method'' panicking_stream no_sinks))) = 0
   \<and> length (emitted (snd (Stream () background_stream ''/svc/Method'' panicking_stream no_sinks))) = 0"
  by (simp add: Unary_def Stream_def panicking_unary_def panicking_stream_def no_sinks_def)

text \<open>
  C6. For every streaming call whose handler returns, whatever it returns: the recorder
  is called with a nil error, so that the entry is logged at debug level and carries the
  service, the method, the requester fields and the client address only, with no error
  field; and the interceptor returns what the handler returned, unchanged.
\<close>

theorem Stream_records_nil_error:
  "shandler srv stream = Returns res \<Longrightarrow>
     Stream srv stream fm shandler out
       = (Returns res, record_ti (stream_Context stream) fm None out)
   \<and> entry_level (last (logged (snd (Stream srv stream fm shandler out)))) = DebugLevel
   \<and> recorded_fields (snd (Stream srv stream fm shandler out)) =
        [(''service'', fst (splitMethodName fm)), (''method'', snd (splitMethodName fm))]
        @ requester_fields (stream_Context stream)
        @ (case md_Get (incoming_md (stream_Context stream)) ''x-forwarded-for'' of
             [] \<Rightarrow> []
           | v # _ \<Rightarrow> [(''client_ip'', TrimSpace (Split v '','' ! 0))])"
  by (simp add: Stream_def record_ti_nil_entry recorded_fields_def)

theorem Stream_records_nil_error_witness:
  "failing_stream () background_stream = Returns (Some (StatusError ''PermissionDenied'' ''no''))
   \<and> fst (Stream () background_stream ''/svc/Method'' failing_stream no_sinks)
       = Returns (Some (StatusError ''PermissionDenied'' ''no''))
   \<and> entry_level (last (logged (snd (Stream () background_stream ''/svc/Method''
         failing_stream no_sinks)))) = DebugLevel
   \<and> recorded_fields (snd (Stream () background_stream ''/svc/Method'' failing_stream no_sinks))
       = [(''service'', ''svc''), (''method'', ''Method'')]"
proof -
  have h: "failing_stream () background_stream
             = Returns (Some (StatusError ''PermissionDenied'' ''no''))"
    by (simp add: failing_stream_def)
  have s: "splitMethodName ''/svc/Method'' = (''svc'', ''Method'')"
    by (simp add: splitMethodName_def TrimPrefix_def HasPrefix_def Index_def Let_def)
  note r = Stream_records_nil_error [where shandler = failing_stream and srv = "()"
        and stream = background_stream and fm = "''/svc/Method''" and out = no_sinks, OF h]
  have r1: "fst (Stream () background_stream ''/svc/Method'' failing_stream no_sinks)
       = Returns (Some (StatusError ''PermissionDenied'' ''no''))"
    using r by simp
  have r2: "entry_level (last (logged (snd (Stream () background_stream
       ''/svc/Method'' failing_stream no_sinks)))) = DebugLevel"
    using r by blast
  have r3: "recorded_fields (snd (Stream () background_stream ''/svc/Method'' failing_stream no_sinks))
       = [(''service'', ''svc''), (''method'', ''Method'')]"
    using conjunct2 [OF conjunct2 [OF r]]
    by (simp add: s background_stream_def Background_def md_Get_def)
  from h r1 r2 r3 show ?thesis by blast
qed

lemma record_ti_client_ip:
  "md_Get (incoming_md ctx) ''x-forwarded-for'' = v # others \<Longrightarrow>
     client_ips (recorded_fields (record_ti ctx fm err out))
       = client_ips (requester_fields ctx) @ [TrimSpace (Split v '','' ! 0)]"
  by (simp add: record_ti_def Let_def zap_String_def zap_Error_def recorded_fields_def
        client_ips_def split: prod.splits option.splits)

lemma record_ti_no_client_ip:
  "md_Get (incoming_md ctx) ''x-forwarded-for'' = [] \<Longrightarrow>
     client_ips (recorded_fields (record_ti ctx fm err out)) = client_ips (requester_fields ctx)"
  by (simp add: record_ti_def Let_def zap_String_def zap_Error_def recorded_fields_def
        client_ips_def split: prod.splits option.splits)

text \<open>
  C9. Whatever the first value \<open>v\<close> of the forwarding header is, the recorder adds exactly
  one client address to the fields it emits: the first of the comma-separated pieces of
  \<open>v\<close>, which is \<open>v\<close> up to its first comma, with its white space trimmed, that is, with
  a run of white space runes taken off the front, a run of white space runes taken off
  the end, and what is left neither beginning nor ending with a white space rune. When
  the value is \<open>203.0.113.5, 10.0.0.1\<close> the address recorded is exactly \<open>203.0.113.5\<close>.
  When the header is absent, the recorder adds no client address field.
\<close>

theorem record_client_ip:
  "(md_Get (incoming_md ctx) ''x-forwarded-for'' = v # others \<longrightarrow>
      (\<exists>lead ip trail.
          takeWhile (\<lambda>c. c \<noteq> CHR '','') v = concat lead @ ip @ concat trail
        \<and> set lead \<subseteq> set space_encodings \<and> set trail \<subseteq> set space_encodings
        \<and> (\<forall>p\<in>set space_encodings. \<not> HasPrefix ip p \<and> \<not> HasSuffix ip p)
        \<and> client_ips (recorded_fields (record_ti ctx fm err out))
            = client_ips (requester_fields ctx) @ [ip]))
   \<and> (md_Get (incoming_md ctx) ''x-forwarded-for'' = ''203.0.113.5, 10.0.0.1'' # others \<longrightarrow>
      client_ips (recorded_fields (record_ti ctx fm err out))
        = client_ips (requester_fields ctx) @ [''203.0.113.5''])
   \<and> (md_Get (incoming_md ctx) ''x-forwarded-for'' = [] \<longrightarrow>
      client_ips (recorded_fields (record_ti ctx fm err out))
        = client_ips (requester_fields ctx))"
proof (intro conjI impI)
  assume h: "md_Get (incoming_md ctx) ''x-forwarded-for'' = v # others"
  let ?piece = "takeWhile (\<lambda>c. c \<noteq> CHR '','') v"
  obtain lead trail where "set lead \<subseteq> set space_encodings" "set trail \<subseteq> set space_encodings"
      "?piece = concat lead @ TrimSpace ?piece @ concat trail"
      "\<forall>p\<in>set space_encodings.
         \<not> HasPrefix (TrimSpace ?piece) p \<and> \<not> HasSuffix (TrimSpace ?piece) p"
    using TrimSpace_spec [of ?piece] by blast
  moreover have "client_ips (recorded_fields (record_ti ctx fm err out))
       = client_ips (requester_fields ctx) @ [TrimSpace ?piece]"
    using record_ti_client_ip [OF h] by (simp add: Split_comma_first)
  ultimately show "\<exists>lead ip trail.
          ?piece = concat lead @ ip @ concat trail
        \<and> set lead \<subseteq> set space_encodings \<and> set trail \<subseteq> set space_encodings
        \<and> (\<forall>p\<in>set space_encodings. \<not> HasPrefix ip p \<and> \<not> HasSuffix ip p)
        \<and> client_ips (recorded_fields (record_ti ctx fm err out))
            = client_ips (requester_fields ctx) @ [ip]"
    by blast
next
  assume h: "md_Get (incoming_md ctx) ''x-forwarded-for'' = ''203.0.113.5, 10.0.0.1'' # others"
  have "Split ''203.0.113.5, 10.0.0.1'' '','' ! 0 = ''203.0.113.5''"
    by (simp add: Split_comma_first)
  then show "client_ips (recorded_fields (record_ti ctx fm err out))
        = client_ips (requester_fields ctx) @ [''203.0.113.5'']"
    using record_ti_client_ip [OF h] by (simp add: TrimSpace_example)
next
  assume "md_Get (incoming_md ctx) ''x-forwarded-for'' = []"
  then show "client_ips (recorded_fields (record_ti ctx fm err out))
        = client_ips (requester_fields ctx)"
    by (rule record_ti_no_client_ip)
qed

theorem record_client_ip_witness:
  "md_Get (incoming_md forwarded_ctx) ''x-forwarded-for'' = [''203.0.113.5, 10.0.0.1'']
   \<and> client_ips (recorded_fields (record_ti forwarded_ctx ''/svc/Method'' None no_sinks))
       = [''203.0.113.5'']
   \<and> md_Get (incoming_md padded_forwarded_ctx) ''x-forwarded-for''
       = [[CHR 0xC2, CHR 0xA0] @ '' 203.0.113.5 '' @ [CHR 0x09] @ '', 10.0.0.1'']
   \<and> (\<exists>lead ip trail.
          takeWhile (\<lambda>c. c \<noteq> CHR '','')
            ([CHR 0xC2, CHR 0xA0] @ '' 203.0.113.5 '' @ [CHR 0x09] @ '', 10.0.0.1'')
            = concat lead @ ip @ concat trail
        \<and> set lead \<subseteq> set space_encodings \<and> set trail \<subseteq> set space_encodings
        \<and> (\<forall>p\<in>set space_encodings. \<not> HasPrefix ip p \<and> \<not> HasSuffix ip p)
        \<and> client_ips (recorded_fields
              (record_ti padded_forwarded_ctx ''/svc/Method'' None no_sinks)) = [ip])
   \<and> client_ips (recorded_fields (record_ti padded_forwarded_ctx ''/svc/Method'' None no_sinks))
       = [''203.0.113.5'']
   \<and> md_Get (incoming_md Background) ''x-forwarded-for'' = []
   \<and> client_ips (recorded_fields (record_ti Background ''/svc/Method'' None no_sinks)) = []"
proof -
  let ?padded = "[CHR 0xC2, CHR 0xA0] @ '' 203.0.113.5 '' @ [CHR 0x09] @ '', 10.0.0.1''"
  have a: "md_Get (incoming_md forwarded_ctx) ''x-forwarded-for'' = [''203.0.113.5, 10.0.0.1'']"
    by (simp add: forwarded_ctx_def md_Get_def)
  have b: "md_Get (incoming_md Background) ''x-forwarded-for'' = []"
    by (simp add: Background_def md_Get_def)
  have p: "md_Get (incoming_md padded_forwarded_ctx) ''x-forwarded-for'' = [?padded]"
    by (simp add: padded_forwarded_ctx_def md_Get_def)
  have c: "client_ips (requester_fields forwarded_ctx) = []"
    "client_ips (requester_fields Background) = []"
    "client_ips (requester_fields padded_forwarded_ctx) = []"
    by (simp_all add: forwarded_ctx_def Background_def padded_forwarded_ctx_def client_ips_def)
  have r1: "client_ips (recorded_fields (record_ti forwarded_ctx ''/svc/Method'' None no_sinks))
       = [''203.0.113.5'']"
    using a c(1) record_client_ip [where ctx = forwarded_ctx and others = "[]"
          and fm = "''/svc/Method''" and err = None and out = no_sinks]
    by simp
  have r2: "\<exists>lead ip trail.
          takeWhile (\<lambda>c. c \<noteq> CHR '','') ?padded = concat lead @ ip @ concat trail
        \<and> set lead \<subseteq> set space_encodings \<and> set trail \<subseteq> set space_encodings
        \<and> (\<forall>p\<in>set space_encodings. \<not> HasPrefix ip p \<and> \<not> HasSuffix ip p)
        \<and> client_ips (recorded_fields
              (record_ti padded_forwarded_ctx ''/svc/Method'' None no_sinks)) = [ip]"
    using p c(3) record_client_ip [where ctx = padded_forwarded_ctx and v = ?padded
          and others = "[]" and fm = "''/svc/Method''" and err = None and out = no_sinks]
    by simp
  have "takeWhile (\<lambda>c. c \<noteq> CHR '','') ?padded = [CHR 0xC2, CHR 0xA0] @ '' 203.0.113.5 '' @ [CHR 0x09]"
    by simp
  then have r3: "client_ips (recorded_fields
        (record_ti padded_forwarded_ctx ''/svc/Method'' None no_sinks)) = [''203.0.113.5'']"
    using record_ti_client_ip [OF p, of "''/svc/Method''" None no_sinks] c(3)
      TrimSpace_padded_example
    by (simp add: Split_comma_first)
  have r4: "client_ips (recorded_fields (record_ti Background ''/svc/Method'' None no_sinks)) = []"
    using b c(2) record_client_ip [where ctx = Background and fm = "''/svc/Method''"
          and err = None and out = no_sinks]
    by simp
  from a p b r1 r2 r3 r4 show ?thesis by blast
qed

section \<open>Properties of the CORS wrapper\<close>

text \<open>
  C10. A request is answered as a preflight exactly when its method is OPTIONS and its
  \<open>Access-Control-Request-Method\<close> header is not empty: the answer then carries the fixed
  allow-lists of headers and of methods and does not depend on the wrapped handler, which
  is not called. Every other request, an OPTIONS request without that header among them,
  goes to the wrapped handler. In both cases \<open>Access-Control-Allow-Origin: *\<close> has been
  set on the response before anything else is done.
\<close>

theorem allowCORS_preflight:
  "(Method r = ''OPTIONS''
      \<and> Header_Get (req_Header r) ''Access-Control-Request-Method'' \<noteq> [] \<longrightarrow>
      allowCORS h w r =
        w\<lparr>resp_Header := (resp_Header w)
            (''Access-Control-Allow-Origin'' \<mapsto> [''*''],
             ''Access-Control-Allow-Headers'' \<mapsto>
               [''Content-Type,Accept,Authorization,X-Client-Version,X-App-Version,Baggage,DNT,Sec-CH-UA,Sec-CH-UA-Mobile,Sec-CH-UA-Platform,Sentry-Trace,User-Agent''],
             ''Access-Control-Allow-Methods'' \<mapsto> [''GET,HEAD,POST,PUT,PATCH,DELETE''])\<rparr>)
   \<and> (\<not> (Method r = ''OPTIONS''
          \<and> Header_Get (req_Header r) ''Access-Control-Request-Method'' \<noteq> []) \<longrightarrow>
      allowCORS h w r =
        h (w\<lparr>resp_Header := (resp_Header w)(''Access-Control-Allow-Origin'' \<mapsto> [''*''])\<rparr>) r)"
  by (simp add: allowCORS_def preflightHandler_def Header_Set_def Let_def)

theorem allowCORS_preflight_witness:
  "Method preflight_request = ''OPTIONS''
   \<and> Header_Get (req_Header preflight_request) ''Access-Control-Request-Method'' \<noteq> []
   \<and> resp_status (allowCORS ok_handler blank_response preflight_request) = None
   \<and> resp_Header (allowCORS ok_handler blank_response preflight_request)
        ''Access-Control-Allow-Methods'' = Some [''GET,HEAD,POST,PUT,PATCH,DELETE'']
   \<and> resp_Header (allowCORS ok_handler blank_response preflight_request)
        ''Access-Control-Allow-Origin'' = Some [''*'']
   \<and> Header_Get (req_Header options_request) ''Access-Control-Request-Method'' = []
   \<and> resp_status (allowCORS ok_handler blank_response options_request) = Some 200
   \<and> resp_Header (allowCORS ok_handler blank_response options_request)
        ''Access-Control-Allow-Origin'' = Some [''*'']"
proof -
  have a: "Method preflight_request = ''OPTIONS''
     \<and> Header_Get (req_Header preflight_request) ''Access-Control-Request-Method'' \<noteq> []"
    by (simp add: preflight_request_def Header_Get_def)
  have b: "Header_Get (req_Header options_request) ''Access-Control-Request-Method'' = []"
    by (simp add: options_request_def Header_Get_def)
  note p = allowCORS_preflight [where r = preflight_request and h = ok_handler
        and w = blank_response]
  note q = allowCORS_preflight [where r = options_request and h = ok_handler
        and w = blank_response]
  have p': "allowCORS ok_handler blank_response preflight_request =
        blank_response\<lparr>resp_Header := (resp_Header blank_response)
            (''Access-Control-Allow-Origin'' \<mapsto> [''*''],
             ''Access-Control-Allow-Headers'' \<mapsto>
               [''Content-Type,Accept,Authorization,X-Client-Version,X-App-Version,Baggage,DNT,Sec-CH-UA,Sec-CH-UA-Mobile,Sec-CH-UA-Platform,Sentry-Trace,User-Agent''],
             ''Access-Control-Allow-Methods'' \<mapsto> [''GET,HEAD,POST,PUT,PATCH,DELETE''])\<rparr>"
    using a p by blast
  have q': "allowCORS ok_handler blank_response options_request =
        ok_handler (blank_response\<lparr>resp_Header :=
          (resp_Header blank_response)(''Access-Control-Allow-Origin'' \<mapsto> [''*''])\<rparr>)
          options_request"
    using b q by blast
  show ?thesis
    using a b unfolding p' q' by (simp add: blank_response_def ok_handler_def)
qed

section \<open>Properties of the server\<close>

lemma chains_append: "chains (a @ b) = chains a @ chains b"
  by (induction a rule: chains.induct) auto

lemma spawned_append: "spawned (a @ b) = spawned a @ spawned b"
  by (induction a rule: spawned.induct) auto

text \<open>
  What \<open>Close\<close> does, for every server: the message service, the HTTP listener and the
  binary-protocol listener are closed in this order, each if it is set, and the wait on
  the wait group comes last.
\<close>

lemma Close_shutdown_steps:
  "filter is_shutdown_step (Close e s) =
     (case messagev1 s of None \<Rightarrow> [] | Some m \<Rightarrow> [ServiceClose m])
     @ (case httpListener s of None \<Rightarrow> [] | Some l \<Rightarrow> [ListenerClose l])
     @ (case grpcListener s of None \<Rightarrow> [] | Some l \<Rightarrow> [ListenerClose l])
     @ [WaitGroupWait]"
  by (simp add: Close_def split: option.splits)

lemma Close_of_constructed_server:
  "New e cfg = (Inr s, tr) \<Longrightarrow>
     filter is_shutdown_step (Close e' s) =
       [ServiceClose MessageV1, ListenerClose HTTP, ListenerClose GRPC, WaitGroupWait]
     \<and> filter is_error_log (Close e' s) =
         (case close_http e' of
            None \<Rightarrow> []
          | Some err \<Rightarrow> [Log ErrorLevel ''closing http listener''])
         @ (case close_grpc e' of
              None \<Rightarrow> []
            | Some err \<Rightarrow> [Log ErrorLevel ''closing grpc listener''])
     \<and> last (Close e' s) = Log InfoLevel ''closed''"
  by (auto simp add: New_def startGRPC_def startHTTP_def GoPanicWrap_def mls_enabled_def Let_def
        Close_def split: option.splits if_splits)

lemma New_spawned_tasks:
  "New e cfg = (Inr s, tr) \<Longrightarrow>
     spawned tr = (if Authn_Enable cfg then [(''Janitor'', PlainGo)] else [])
        @ [(''grpc'', ThroughGoPanicWrap), (''http'', ThroughGoPanicWrap)]
     \<and> wg s = 2"
  by (auto simp add: New_def startGRPC_def startHTTP_def GoPanicWrap_def mls_enabled_def Let_def
        spawned_append split: option.splits if_splits)

text \<open>
  C1. With authentication enabled and every outside call succeeding, \<open>New\<close> starts three
  tasks. The two serve loops are started through \<open>GoPanicWrap\<close> and the wait group
  counts them; the janitor of the rate limiter is started by a plain \<open>go\<close> statement:
  it is neither wrapped nor counted, so the wait in \<open>Close\<close> does not wait for it.
\<close>

theorem New_starts_janitor_with_plain_go:
  "New env_ok cfg_authn =
     (Inr \<lparr>config = cfg_authn, grpcListener = Some GRPC, httpListener = Some HTTP,
           messagev1 = Some MessageV1, messagev3 = None, wg = 2,
           server_ctx = Background, authorizer = Some WalletAuthorizer\<rparr>,
      [NetListen GRPC, GoStmt ''Janitor'',
       NewServer [PrometheusInterceptor, TelemetryInterceptor, WalletAuthorizer]
                 [PrometheusInterceptor, TelemetryInterceptor, WalletAuthorizer],
       RegisterService MessageV1, GoPanicWrapped ''grpc'', DialContext,
       RegisterHandler MessageV1, NetListen HTTP, GoPanicWrapped ''http''])
   \<and> spawned (snd (New env_ok cfg_authn)) =
       [(''Janitor'', PlainGo), (''grpc'', ThroughGoPanicWrap), (''http'', ThroughGoPanicWrap)]"
  by (simp add: New_def startGRPC_def startHTTP_def GoPanicWrap_def mls_enabled_def Let_def
        env_ok_def cfg_authn_def)

text \<open>
  C3, as the code has it. A bind failure of either listener makes \<open>New\<close> return an error
  and no server. Whenever \<open>New\<close> returns an error, the HTTP listener is not open, and
  the binary-protocol listener is open exactly when its bind succeeded: \<open>New\<close> closes
  nothing before it returns the error.
\<close>

theorem New_failure_leaves_bound_listener_open:
  "((listen_grpc e \<noteq> None \<or> listen_http e \<noteq> None) \<longrightarrow> isl (fst (New e cfg)))
   \<and> (isl (fst (New e cfg)) \<longrightarrow>
        open_listeners (snd (New e cfg)) =
          (if validate_result e = None \<and> listen_grpc e = None then [GRPC] else []))"
  by (simp add: New_def startGRPC_def startHTTP_def GoPanicWrap_def mls_enabled_def Let_def
        open_listeners_def split: option.splits)

theorem New_failure_leaves_bound_listener_open_witness:
  "listen_http env_http_bind_fails \<noteq> None
   \<and> isl (fst (New env_http_bind_fails cfg_plain))
   \<and> validate_result env_http_bind_fails = None
   \<and> listen_grpc env_http_bind_fails = None
   \<and> open_listeners (snd (New env_http_bind_fails cfg_plain)) = [GRPC]"
proof -
  have a: "listen_http env_http_bind_fails \<noteq> None"
    "validate_result env_http_bind_fails = None" "listen_grpc env_http_bind_fails = None"
    by (simp_all add: env_http_bind_fails_def env_ok_def)
  from a New_failure_leaves_bound_listener_open [where e = env_http_bind_fails and cfg = cfg_plain]
  show ?thesis by simp
qed

text \<open>
  The claim as it was made (the bound listener is closed before the error is returned)
  fails: when only the bind of the HTTP listener fails, \<open>New\<close> returns the error while the
  binary-protocol listener is still open, its serve loop started.
\<close>

theorem New_http_bind_failure_keeps_grpc_listener:
  "New env_http_bind_fails cfg_plain =
     (Inl (GoError ''creating grpc-gateway listener: address already in use''),
      [NetListen GRPC,
       NewServer [PrometheusInterceptor, TelemetryInterceptor]
                 [PrometheusInterceptor, TelemetryInterceptor],
       RegisterService MessageV1, GoPanicWrapped ''grpc'', DialContext,
       RegisterHandler MessageV1])
   \<and> open_listeners (snd (New env_http_bind_fails cfg_plain)) = [GRPC]"
  by (simp add: New_def startGRPC_def startHTTP_def GoPanicWrap_def mls_enabled_def Let_def
        env_http_bind_fails_def env_ok_def cfg_plain_def Wrap_def open_listeners_def)

text \<open>
  C4. With the MLS service enabled and every outside call succeeding, \<open>New\<close> creates and
  registers both services. \<open>Close\<close> on that server closes the message service, the HTTP
  listener and the binary-protocol listener, in this order, and then waits; the MLS
  service is never closed.
\<close>

theorem Close_never_closes_mls_service:
  "New env_ok cfg_mls =
     (Inr server_mls,
      [NetListen GRPC,
       NewServer [PrometheusInterceptor, TelemetryInterceptor]
                 [PrometheusInterceptor, TelemetryInterceptor],
       RegisterService MessageV1, RegisterService MessageV3, GoPanicWrapped ''grpc'',
       DialContext, RegisterHandler MessageV1, RegisterHandler MessageV3, NetListen HTTP,
       GoPanicWrapped ''http''])
   \<and> messagev3 server_mls = Some MessageV3
   \<and> Close env_ok server_mls =
       [Log InfoLevel ''closing'', ServiceClose MessageV1, ListenerClose HTTP,
        ListenerClose GRPC, WaitGroupWait, Log InfoLevel ''closed'']
   \<and> ServiceClose MessageV3 \<notin> set (Close env_ok server_mls)"
  by (simp add: New_def startGRPC_def startHTTP_def GoPanicWrap_def mls_enabled_def Let_def
        env_ok_def cfg_mls_def server_mls_def Close_def)

text \<open>
  C7. Whenever the binary-protocol listener is bound, the transport server is created
  once, with a unary chain and a streaming chain that are both: the metrics interceptor,
  then the telemetry interceptor, then, last, the authorizer, which is in the chains
  exactly when authentication is enabled in the configuration.
\<close>

theorem interceptor_chain_fixed_order:
  "validate_result e = None \<Longrightarrow> listen_grpc e = None \<Longrightarrow>
     chains (snd (New e cfg)) =
       [([PrometheusInterceptor, TelemetryInterceptor]
           @ (if Authn_Enable cfg then [WalletAuthorizer] else []),
         [PrometheusInterceptor, TelemetryInterceptor]
           @ (if Authn_Enable cfg then [WalletAuthorizer] else []))]
     \<and> (WalletAuthorizer \<in> set (fst (hd (chains (snd (New e cfg))))) = Authn_Enable cfg)
     \<and> (WalletAuthorizer \<in> set (snd (hd (chains (snd (New e cfg))))) = Authn_Enable cfg)"
  by (simp add: New_def startGRPC_def startHTTP_def GoPanicWrap_def mls_enabled_def Let_def
        chains_append split: option.splits)

theorem interceptor_chain_fixed_order_witness:
  "validate_result env_ok = None \<and> listen_grpc env_ok = None
   \<and> chains (snd (New env_ok cfg_authn)) =
       [([PrometheusInterceptor, TelemetryInterceptor, WalletAuthorizer],
         [PrometheusInterceptor, TelemetryInterceptor, WalletAuthorizer])]
   \<and> chains (snd (New env_ok cfg_plain)) =
       [([PrometheusInterceptor, TelemetryInterceptor],
         [PrometheusInterceptor, TelemetryInterceptor])]"
proof -
  have a: "validate_result env_ok = None" and b: "listen_grpc env_ok = None"
    by (simp_all add: env_ok_def)
  have c: "Authn_Enable cfg_authn" "\<not> Authn_Enable cfg_plain"
    by (simp_all add: cfg_authn_def cfg_plain_def)
  from a b c
    interceptor_chain_fixed_order [OF a b, where cfg = cfg_authn]
    interceptor_chain_fixed_order [OF a b, where cfg = cfg_plain]
  show ?thesis by simp
qed

end
